theory Spec2Isabelle
  imports Complex_Main "HOL-Library.Word"
begin

section \<open>Errors\<close>

text \<open>
  Every \<^verbatim>\<open>raise\<close> of the Python sources, and every failure of a library primitive they
  call, is a value of this type; a fallible function returns \<open>error + 'a\<close>.
\<close>

datatype error =
    ValueError string
  | NotImplementedError string
  | OpError string

section \<open>Masked-position gather (ipu\_pretraining\_model.py)\<close>

subsection \<open>Tensors\<close>

text \<open>
  A tensor is its static shape together with its elements in row-major order, which is the
  layout \<^verbatim>\<open>tf.reshape\<close> preserves. The element type is arbitrary: the gather only
  moves elements, so equality of elements is bit-identity.
\<close>

record 'a tensor =
  shape :: "nat list"
  data :: "'a list"

definition well_shaped :: "'a tensor \<Rightarrow> bool" where
  "well_shaped t = (length (data t) = prod_list (shape t))"

text \<open>\<open>t[i, j, :]\<close> of a rank-3 tensor and \<open>t[i, j]\<close> of a rank-2 tensor.\<close>

definition row3 :: "'a tensor \<Rightarrow> nat \<Rightarrow> nat \<Rightarrow> 'a list" where
  "row3 t i j =
     take (shape t ! 2) (drop ((i * (shape t ! 1) + j) * (shape t ! 2)) (data t))"

definition at2 :: "'a tensor \<Rightarrow> nat \<Rightarrow> nat \<Rightarrow> 'a" where
  "at2 t i j = data t ! (i * (shape t ! 1) + j)"

subsection \<open>The TensorFlow primitives used by the gather\<close>

text \<open>
  Indices are \<^verbatim>\<open>tf.int32\<close>: 32-bit words read as two's complement, whose arithmetic
  wraps around.
\<close>

type_synonym int32 = "32 word"

text \<open>
  \<^verbatim>\<open>tf.range(0, n, dtype=tf.int32) * s\<close> for Python integers \<open>n\<close> and \<open>s\<close>: both are
  converted to \<^verbatim>\<open>int32\<close> tensors, which fails for a value that \<^verbatim>\<open>int32\<close> cannot
  represent; the elementwise product itself wraps.
\<close>

definition range_times :: "nat \<Rightarrow> nat \<Rightarrow> error + int32 list" where
  "range_times n s =
     (if n < 2 ^ 31 \<and> s < 2 ^ 31
      then Inr (map (\<lambda>b. (word_of_nat b :: int32) * word_of_nat s) [0..<n])
      else Inl (ValueError ''value out of range for int32''))"

text \<open>
  \<^verbatim>\<open>positions + flat_offsets\<close> with \<open>positions\<close> of shape \<open>(pb, m)\<close> and the offsets
  reshaped to \<open>(b, 1)\<close>, followed by the reshape to \<open>(-1,)\<close>. The second axis of the
  offsets always broadcasts; the first axes must agree unless one of them is 1.
\<close>

definition add_offsets :: "int32 tensor \<Rightarrow> int32 list \<Rightarrow> error + int32 list" where
  "add_offsets positions flat_offsets =
     (case shape positions of
        [pb, m] \<Rightarrow>
          (let b = length flat_offsets in
           if pb = b \<or> pb = 1 \<or> b = 1
           then Inr (map (\<lambda>k. data positions ! ((if pb = 1 then 0 else k div m) * m + k mod m)
                               + flat_offsets ! (if b = 1 then 0 else k div m))
                         [0..<(if pb = 1 then b else pb) * m])
           else Inl (OpError ''incompatible shapes''))
      | _ \<Rightarrow> Inl (ValueError ''positions must have rank 2''))"

text \<open>\<^verbatim>\<open>tf.reshape\<close> to a fully given shape: the elements stay, their number must fit.\<close>

definition reshape :: "'a tensor \<Rightarrow> nat list \<Rightarrow> error + 'a tensor" where
  "reshape t shp =
     (if prod_list shp = length (data t)
      then Inr (t\<lparr>shape := shp\<rparr>)
      else Inl (OpError ''reshape: number of elements differs''))"

text \<open>
  \<^verbatim>\<open>ipu.ops.embedding_ops.embedding_lookup(params, ids, serialization_factor=1)\<close>, a
  library primitive: row \<open>ids[k]\<close> of the rank-2 table \<open>params\<close> becomes row \<open>k\<close> of the
  result. The library leaves an index outside \<open>[0, rows)\<close> undefined; the model makes it
  an error.
\<close>

definition embedding_lookup :: "'a tensor \<Rightarrow> int32 list \<Rightarrow> error + 'a tensor" where
  "embedding_lookup params ids =
     (case shape params of
        [rows, width] \<Rightarrow>
          (if list_all (\<lambda>i. 0 \<le> sint i \<and> sint i < int rows) ids
           then Inr \<lparr>shape = [length ids, width],
                     data = concat (map (\<lambda>i. take width (drop (nat (sint i) * width) (data params))) ids)\<rparr>
           else Inl (OpError ''index out of range''))
      | _ \<Rightarrow> Inl (ValueError ''params must have rank 2''))"

subsection \<open>gather\_positions\<close>

definition gather_positions :: "'a tensor \<Rightarrow> int32 tensor \<Rightarrow> error + 'a tensor" where
  "gather_positions inputs positions =
     (case shape inputs of
        [micro_batch_size, seq_length, hidden_size] \<Rightarrow>
          (case shape positions of
             [pb, num_masked_tokens] \<Rightarrow>
               (case range_times micro_batch_size seq_length of
                  Inl e \<Rightarrow> Inl e
                | Inr flat_offsets \<Rightarrow>
                    (case add_offsets positions flat_offsets of
                       Inl e \<Rightarrow> Inl e
                     | Inr flat_positions \<Rightarrow>
                         (case reshape inputs [micro_batch_size * seq_length, hidden_size] of
                            Inl e \<Rightarrow> Inl e
                          | Inr flat_sequence_tensor \<Rightarrow>
                              (case embedding_lookup flat_sequence_tensor flat_positions of
                                 Inl e \<Rightarrow> Inl e
                               | Inr output_tensor \<Rightarrow>
                                   reshape output_tensor
                                     [micro_batch_size, num_masked_tokens, hidden_size]))))
           | _ \<Rightarrow> Inl (ValueError ''positions must have rank 2''))
      | _ \<Rightarrow> Inl (ValueError ''inputs must have rank 3''))"

subsection \<open>Example inputs\<close>

text \<open>
  The end-to-end scenario of the specification (\<open>B = 2\<close>, \<open>S = 4\<close>, \<open>H = 3\<close>, hidden
  values \<open>0..23\<close>), and a hidden-state tensor with more rows than \<^verbatim>\<open>int32\<close> can count
  (\<open>B = 3\<close>, \<open>S = 2\<^sup>3\<^sup>1 - 1\<close>, \<open>H = 1\<close>, element \<open>k\<close> holding the value \<open>k\<close>).
\<close>

definition small_hidden :: "int tensor" where
  "small_hidden = \<lparr>shape = [2, 4, 3], data = map int [0..<24]\<rparr>"

definition small_positions :: "int32 tensor" where
  "small_positions = \<lparr>shape = [2, 2], data = [0, 2, 1, 3]\<rparr>"

definition small_order_positions :: "int32 tensor" where
  "small_order_positions = \<lparr>shape = [2, 4], data = [0, 1, 2, 3, 0, 1, 2, 3]\<rparr>"

definition wide_hidden :: "int tensor" where
  "wide_hidden = \<lparr>shape = [3, 2147483647, 1], data = map int [0..<6442450941]\<rparr>"

definition wide_positions :: "int32 tensor" where
  "wide_positions = \<lparr>shape = [3, 1], data = [0, 0, 2]\<rparr>"

definition wide_order_positions :: "int32 tensor" where
  "wide_order_positions =
     \<lparr>shape = [3, 2147483647], data = map (\<lambda>k. word_of_nat (k mod 2147483647)) [0..<6442450941]\<rparr>"

section \<open>LARS optimizer (lars\_optimizer.py)\<close>

text \<open>
  Floating-point tensors are modelled over the reals: a tensor of weights or gradients is the
  list of its elements (the update is elementwise, so the shape plays no role), and the casts
  between the compute precision and the storage precision are the identity. Rounding,
  overflow and NaN are outside the model.
\<close>

subsection \<open>Construction\<close>

datatype dtype = Float16 | Float32 | Float64

text \<open>
  The arguments of \<^verbatim>\<open>__init__\<close>. \<open>arg_epsilon = None\<close> is Python's \<^verbatim>\<open>None\<close>; the
  keyword arguments \<^verbatim>\<open>lr\<close> and \<^verbatim>\<open>decay\<close> of \<^verbatim>\<open>**kwargs\<close> are optional.
\<close>

record init_args =
  arg_learning_rate :: real
  arg_momentum :: real
  arg_weight_decay :: real
  arg_eeta :: real
  arg_epsilon :: "real option"
  arg_name :: string
  arg_exclude_from_weight_decay :: "string list option"
  arg_exclude_from_layer_adaptation :: "string list option"
  arg_m_dtype :: "dtype option"
  arg_optimizer_compute_precisions :: "dtype list"
  arg_use_nesterov :: bool
  kwargs_lr :: "real option"
  kwargs_decay :: "real option"

text \<open>The defaults of the signature of \<^verbatim>\<open>__init__\<close>.\<close>

definition default_args :: init_args where
  "default_args =
     \<lparr>arg_learning_rate = 1 / 1000,
      arg_momentum = 9 / 10,
      arg_weight_decay = 1 / 10000,
      arg_eeta = 1 / 1000,
      arg_epsilon = Some 0,
      arg_name = ''LARSOptimizer'',
      arg_exclude_from_weight_decay = None,
      arg_exclude_from_layer_adaptation = None,
      arg_m_dtype = None,
      arg_optimizer_compute_precisions = [Float32, Float32],
      arg_use_nesterov = False,
      kwargs_lr = None,
      kwargs_decay = None\<rparr>"

text \<open>
  The optimizer object: the name and initial decay kept by the base class, the five
  hyperparameters registered with \<^verbatim>\<open>_set_hyper\<close>, and the plain attributes.
\<close>

record optimizer =
  opt_name :: string
  initial_decay :: real
  hyper_eeta :: real
  hyper_weight_decay :: real
  hyper_learning_rate :: real
  hyper_decay :: real
  hyper_momentum :: real
  epsilon :: real
  exclude_from_weight_decay :: "string list option"
  exclude_from_layer_adaptation :: "string list option"
  use_nesterov :: bool
  m_dtype :: "dtype option"
  opt_dtypes :: "dtype list"

text \<open>
  \<^verbatim>\<open>__init__\<close>. The first parameter is the value of \<^verbatim>\<open>tf.keras.backend.epsilon()\<close>, a
  setting of the library (\<open>1e-7\<close> unless changed). \<^verbatim>\<open>epsilon or tf.keras.backend.epsilon()\<close>
  takes the library value when \<^verbatim>\<open>epsilon\<close> is falsy, that is \<^verbatim>\<open>None\<close> or zero. The base
  constructor stores the name and \<^verbatim>\<open>kwargs.pop("decay", 0.0)\<close>. The length check comes
  last, as in the source.
\<close>

definition init :: "real \<Rightarrow> init_args \<Rightarrow> error + optimizer" where
  "init backend_epsilon a =
     (let decay = (case kwargs_decay a of None \<Rightarrow> 0 | Some d \<Rightarrow> d);
          self = \<lparr>opt_name = arg_name a,
                  initial_decay = decay,
                  hyper_eeta = arg_eeta a,
                  hyper_weight_decay = arg_weight_decay a,
                  hyper_learning_rate =
                    (case kwargs_lr a of None \<Rightarrow> arg_learning_rate a | Some lr \<Rightarrow> lr),
                  hyper_decay = decay,
                  hyper_momentum = arg_momentum a,
                  epsilon =
                    (case arg_epsilon a of
                       None \<Rightarrow> backend_epsilon
                     | Some e \<Rightarrow> if e = 0 then backend_epsilon else e),
                  exclude_from_weight_decay = arg_exclude_from_weight_decay a,
                  exclude_from_layer_adaptation = arg_exclude_from_layer_adaptation a,
                  use_nesterov = arg_use_nesterov a,
                  m_dtype = arg_m_dtype a,
                  opt_dtypes = arg_optimizer_compute_precisions a\<rparr>
      in if length (opt_dtypes self) \<noteq> 2
         then Inl (ValueError
                ''Must provide a list of two elements for the optimizer compute precision.'')
         else Inr self)"

subsection \<open>Variables, slots and per-step coefficients\<close>

record variable =
  var_name :: string
  var_value :: "real list"

text \<open>
  \<^verbatim>\<open>_create_slots\<close>: one momentum accumulator per variable, of the variable's shape,
  initialised to zero.
\<close>

definition create_slots :: "variable list \<Rightarrow> real list list" where
  "create_slots var_list = map (\<lambda>var. replicate (length (var_value var)) 0) var_list"

record coefficients =
  coef_lr_t :: real
  coef_eeta :: real
  coef_weight_decay :: real
  coef_epsilon :: real
  coef_momentum :: real

text \<open>
  The learning rate the base class puts into the coefficients (\<^verbatim>\<open>_decayed_lr\<close> of the
  Keras optimizer): the \<^verbatim>\<open>learning_rate\<close> hyperparameter, under inverse time decay when
  the initial decay is positive.
\<close>

definition decayed_lr :: "optimizer \<Rightarrow> nat \<Rightarrow> real" where
  "decayed_lr self iterations =
     (if initial_decay self > 0
      then hyper_learning_rate self / (1 + hyper_decay self * real iterations)
      else hyper_learning_rate self)"

definition prepare_local :: "optimizer \<Rightarrow> nat \<Rightarrow> coefficients" where
  "prepare_local self iterations =
     \<lparr>coef_lr_t = decayed_lr self iterations,
      coef_eeta = hyper_eeta self,
      coef_weight_decay = hyper_weight_decay self,
      coef_epsilon = epsilon self,
      coef_momentum = hyper_momentum self\<rparr>"

text \<open>
  \<^verbatim>\<open>update_coefficients\<close>: the entry of \<^verbatim>\<open>apply_state\<close> for the variable's device and
  dtype when there is one, else the fallback, which prepares the same coefficients.
\<close>

definition update_coefficients :: "optimizer \<Rightarrow> nat \<Rightarrow> coefficients option \<Rightarrow> coefficients" where
  "update_coefficients self iterations apply_state =
     (case apply_state of Some c \<Rightarrow> c | None \<Rightarrow> prepare_local self iterations)"

subsection \<open>Names and exclusion patterns\<close>

definition is_digit :: "char \<Rightarrow> bool" where
  "is_digit c = (c \<in> set ''0123456789'')"

definition newline :: char where
  "newline = CHR 0x0A"

text \<open>
  \<^verbatim>\<open>_get_variable_name\<close>: \<^verbatim>\<open>re.match("^(.*):\\d+$", param_name)\<close> succeeds when the name is
  a prefix without newline, a colon and a non-empty run of digits, up to the end of the
  string or up to a single final newline (where \<^verbatim>\<open>$\<close> also matches); the result is then
  the prefix. Characters are bytes here, so the digits are the ASCII ones.
\<close>

definition get_variable_name :: "string \<Rightarrow> string" where
  "get_variable_name param_name =
     (let body = (if param_name \<noteq> [] \<and> last param_name = newline
                  then butlast param_name else param_name);
          digits = takeWhile is_digit (rev body);
          rest = dropWhile is_digit (rev body)
      in case rest of
           [] \<Rightarrow> param_name
         | c # prefix \<Rightarrow>
             if c = CHR '':'' \<and> digits \<noteq> [] \<and> list_all (\<lambda>x. x \<noteq> newline) prefix
             then rev prefix else param_name)"

text \<open>
  The loop \<^verbatim>\<open>for r in patterns: if re.search(r, param_name) is not None: return False\<close>,
  followed by \<^verbatim>\<open>return True\<close>. The regular-expression engine is a parameter
  \<open>re_search\<close>: \<open>re_search r s\<close> says whether \<^verbatim>\<open>re.search(r, s)\<close> finds a match.
\<close>

fun no_pattern_matches :: "(string \<Rightarrow> string \<Rightarrow> bool) \<Rightarrow> string list \<Rightarrow> string \<Rightarrow> bool" where
  "no_pattern_matches re_search [] param_name = True"
| "no_pattern_matches re_search (r # rs) param_name =
     (if re_search r param_name then False else no_pattern_matches re_search rs param_name)"

definition do_use_weight_decay :: "(string \<Rightarrow> string \<Rightarrow> bool) \<Rightarrow> optimizer \<Rightarrow> string \<Rightarrow> bool" where
  "do_use_weight_decay re_search self param_name =
     (case exclude_from_weight_decay self of
        None \<Rightarrow> True
      | Some rs \<Rightarrow> if rs = [] then True else no_pattern_matches re_search rs param_name)"

definition do_layer_adaptation :: "(string \<Rightarrow> string \<Rightarrow> bool) \<Rightarrow> optimizer \<Rightarrow> string \<Rightarrow> bool" where
  "do_layer_adaptation re_search self param_name =
     (case exclude_from_layer_adaptation self of
        None \<Rightarrow> True
      | Some rs \<Rightarrow> if rs = [] then True else no_pattern_matches re_search rs param_name)"

text \<open>
  An instance of the matcher for the examples: \<^verbatim>\<open>re.search\<close> on a pattern without
  metacharacters finds a match exactly when the pattern occurs in the string.
\<close>

fun literal_search :: "string \<Rightarrow> string \<Rightarrow> bool" where
  "literal_search r [] = (r = [])"
| "literal_search r (c # s) = (take (length r) (c # s) = r \<or> literal_search r s)"

subsection \<open>Trust ratio and dense update\<close>

text \<open>\<^verbatim>\<open>linalg_ops.norm(t, ord=2)\<close>: the Euclidean norm of all elements.\<close>

definition norm2 :: "real list \<Rightarrow> real" where
  "norm2 xs = sqrt (sum_list (map (\<lambda>x. x * x) xs))"

text \<open>
  \<^verbatim>\<open>compute_trust_ratio\<close> returns the trust ratio and the gradient, which has the weight
  decay folded in unless the variable is excluded from it. Both norms are taken before
  that. The nested \<^verbatim>\<open>array_ops.where\<close> on the scalar norms is a nested conditional.
\<close>

definition compute_trust_ratio ::
  "(string \<Rightarrow> string \<Rightarrow> bool) \<Rightarrow> optimizer \<Rightarrow> real list \<Rightarrow> variable \<Rightarrow> real \<Rightarrow> real \<Rightarrow> real
     \<Rightarrow> real \<times> real list" where
  "compute_trust_ratio re_search self grad var eeta epsilon' weight_decay =
     (let var_name' = get_variable_name (var_name var) in
      if do_layer_adaptation re_search self var_name'
      then
        (let w_norm = norm2 (var_value var);
             g_norm = norm2 grad;
             use_wd = do_use_weight_decay re_search self var_name';
             grad' = (if use_wd
                      then map2 (\<lambda>g v. g + weight_decay * v) grad (var_value var)
                      else grad);
             weight_decay' = (if use_wd then weight_decay else 0);
             trust_ratio =
               (if w_norm > 0
                then (if g_norm > 0
                      then eeta * w_norm / (g_norm + weight_decay' * w_norm + epsilon')
                      else 1)
                else 1)
         in (trust_ratio, grad'))
      else (1, grad))"

text \<open>
  \<^verbatim>\<open>training_ops.resource_apply_momentum\<close>, the fused library primitive: the accumulator
  becomes \<open>accum * momentum + grad\<close>; the variable loses \<open>lr * accum\<close>, or with Nesterov
  momentum \<open>grad * lr + accum * momentum * lr\<close>, for the new accumulator. A variable, its
  gradient and its accumulator have the same shape, so the elementwise operations pair
  lists of the same length.
\<close>

definition resource_apply_momentum ::
  "real list \<Rightarrow> real list \<Rightarrow> real \<Rightarrow> real list \<Rightarrow> real \<Rightarrow> bool \<Rightarrow> real list \<times> real list" where
  "resource_apply_momentum var accum lr grad momentum nesterov =
     (let accum' = map2 (\<lambda>a g. a * momentum + g) accum grad;
          var' = (if nesterov
                  then map2 (\<lambda>v (g, a). v - (g * lr + a * momentum * lr)) var (zip grad accum')
                  else map2 (\<lambda>v a. v - lr * a) var accum')
      in (var', accum'))"

text \<open>
  \<^verbatim>\<open>_resource_apply_dense\<close>. The source updates the variable and its slot in place; the
  model returns both, together with the two locals the specification speaks about.
\<close>

record dense_step =
  step_trust_ratio :: real
  step_scaled_lr :: real
  step_momentum_var :: "real list"
  step_var :: variable

definition resource_apply_dense ::
  "(string \<Rightarrow> string \<Rightarrow> bool) \<Rightarrow> optimizer \<Rightarrow> nat \<Rightarrow> real list \<Rightarrow> variable \<Rightarrow> real list
     \<Rightarrow> coefficients option \<Rightarrow> dense_step" where
  "resource_apply_dense re_search self iterations grad var momentum_var apply_state =
     (let coefficients = update_coefficients self iterations apply_state;
          eeta = coef_eeta coefficients;
          lr_t = coef_lr_t coefficients;
          epsilon' = coef_epsilon coefficients;
          momentum = coef_momentum coefficients;
          weight_decay = coef_weight_decay coefficients;
          (trust_ratio, grad') =
             compute_trust_ratio re_search self grad var eeta epsilon' weight_decay;
          scaled_lr = lr_t * trust_ratio;
          (var', accum') =
             resource_apply_momentum (var_value var) momentum_var 1
               (map (\<lambda>g. g * scaled_lr) grad') momentum (use_nesterov self)
      in \<lparr>step_trust_ratio = trust_ratio,
          step_scaled_lr = scaled_lr,
          step_momentum_var = accum',
          step_var = var\<lparr>var_value := var'\<rparr>\<rparr>)"

subsection \<open>Sparse gradients\<close>

text \<open>A gradient is a dense tensor or an \<^verbatim>\<open>IndexedSlices\<close> of values and row indices.\<close>

datatype gradient = Dense "real list" | IndexedSlices "real list" "nat list"

text \<open>
  Modelled from the spec: \<^verbatim>\<open>LARSIpuOptimizer\<close> defines no \<^verbatim>\<open>_resource_apply_sparse\<close>; the
  method it inherits from \<^verbatim>\<open>IpuOptimizerBase\<close> is not among the sources. The class
  docstring says "Update for Sparse tensors is not implemented", and the specification
  that the sparse path "must fail fast (NotImplemented / Unsupported)".
\<close>

definition resource_apply_sparse ::
  "optimizer \<Rightarrow> real list \<Rightarrow> variable \<Rightarrow> nat list \<Rightarrow> coefficients option \<Rightarrow> error + dense_step" where
  "resource_apply_sparse self grad var indices apply_state =
     Inl (NotImplementedError ''Must be implemented in subclasses.'')"

text \<open>
  Modelled from the spec: the training loop hands each gradient to the update path of its
  kind ("a per-step dense-gradient apply function"; "sparse-gradient update path").
\<close>

definition apply_gradient ::
  "(string \<Rightarrow> string \<Rightarrow> bool) \<Rightarrow> optimizer \<Rightarrow> nat \<Rightarrow> gradient \<Rightarrow> variable \<Rightarrow> real list
     \<Rightarrow> coefficients option \<Rightarrow> error + dense_step" where
  "apply_gradient re_search self iterations g var momentum_var apply_state =
     (case g of
        Dense grad \<Rightarrow>
          Inr (resource_apply_dense re_search self iterations grad var momentum_var apply_state)
      | IndexedSlices values indices \<Rightarrow>
          resource_apply_sparse self values var indices apply_state)"

subsection \<open>Configuration export\<close>

record config =
  cfg_name :: string
  cfg_learning_rate :: real
  cfg_weight_decay :: real
  cfg_decay :: real
  cfg_momentum :: real
  cfg_eeta :: real
  cfg_epsilon :: real
  cfg_m_dtype :: "dtype option"

text \<open>
  \<^verbatim>\<open>get_config\<close>: the base class contributes the name, the override the seven entries
  below it.
\<close>

definition get_config :: "optimizer \<Rightarrow> config" where
  "get_config self =
     \<lparr>cfg_name = opt_name self,
      cfg_learning_rate = hyper_learning_rate self,
      cfg_weight_decay = hyper_weight_decay self,
      cfg_decay = hyper_decay self,
      cfg_momentum = hyper_momentum self,
      cfg_eeta = hyper_eeta self,
      cfg_epsilon = epsilon self,
      cfg_m_dtype = m_dtype self\<rparr>"

text \<open>
  Reconstruction from an export, as the base class does it: \<^verbatim>\<open>cls(**config)\<close>, so every
  parameter of \<^verbatim>\<open>__init__\<close> without an entry in the export takes its default, and
  \<^verbatim>\<open>decay\<close> arrives through \<^verbatim>\<open>**kwargs\<close>.
\<close>

definition from_config :: "real \<Rightarrow> config \<Rightarrow> error + optimizer" where
  "from_config backend_epsilon c =
     init backend_epsilon
       (default_args\<lparr>arg_name := cfg_name c,
                     arg_learning_rate := cfg_learning_rate c,
                     arg_weight_decay := cfg_weight_decay c,
                     kwargs_decay := Some (cfg_decay c),
                     arg_momentum := cfg_momentum c,
                     arg_eeta := cfg_eeta c,
                     arg_epsilon := Some (cfg_epsilon c),
                     arg_m_dtype := cfg_m_dtype c\<rparr>)"

subsection \<open>Example optimizers and variables\<close>

text \<open>
  An optimizer that excludes biases and batch-norm parameters from weight decay and
  batch-norm parameters from layer adaptation, otherwise with the default arguments, under
  the library's default backend epsilon \<open>1e-7\<close>.
\<close>

definition example_args :: init_args where
  "example_args =
     default_args\<lparr>arg_exclude_from_weight_decay := Some [''bn'', ''bias''],
                  arg_exclude_from_layer_adaptation := Some [''bn'']\<rparr>"

definition example_optimizer :: optimizer where
  "example_optimizer =
     \<lparr>opt_name = ''LARSOptimizer'',
      initial_decay = 0,
      hyper_eeta = 1 / 1000,
      hyper_weight_decay = 1 / 10000,
      hyper_learning_rate = 1 / 1000,
      hyper_decay = 0,
      hyper_momentum = 9 / 10,
      epsilon = 1 / 10000000,
      exclude_from_weight_decay = Some [''bn'', ''bias''],
      exclude_from_layer_adaptation = Some [''bn''],
      use_nesterov = False,
      m_dtype = None,
      opt_dtypes = [Float32, Float32]\<rparr>"

definition kernel_var :: "real \<Rightarrow> variable" where
  "kernel_var w = \<lparr>var_name = ''dense/kernel:0'', var_value = [w]\<rparr>"

definition bias_var :: "real \<Rightarrow> variable" where
  "bias_var w = \<lparr>var_name = ''dense/bias:0'', var_value = [w]\<rparr>"

text \<open>
  The end-to-end optimizer scenario of the specification: momentum 0, eeta 1, weight decay
  0, epsilon 0, learning rate 0.1, no exclusion patterns; one scalar variable.
\<close>

definition scenario_args :: init_args where
  "scenario_args =
     default_args\<lparr>arg_learning_rate := 1 / 10,
                  arg_momentum := 0,
                  arg_weight_decay := 0,
                  arg_eeta := 1,
                  arg_epsilon := Some 0\<rparr>"

definition scenario_optimizer :: "real \<Rightarrow> optimizer" where
  "scenario_optimizer backend_epsilon =
     \<lparr>opt_name = ''LARSOptimizer'',
      initial_decay = 0,
      hyper_eeta = 1,
      hyper_weight_decay = 0,
      hyper_learning_rate = 1 / 10,
      hyper_decay = 0,
      hyper_momentum = 0,
      epsilon = backend_epsilon,
      exclude_from_weight_decay = None,
      exclude_from_layer_adaptation = None,
      use_nesterov = False,
      m_dtype = None,
      opt_dtypes = [Float32, Float32]\<rparr>"

definition scenario_var :: variable where
  "scenario_var = \<lparr>var_name = ''v:0'', var_value = [4]\<rparr>"

section \<open>Properties of the gather\<close>

subsection \<open>Index arithmetic and blocks of a flat list\<close>

lemma sint_word_of_int_small:
  "- (2 ^ 31) \<le> x \<Longrightarrow> x < 2 ^ 31 \<Longrightarrow> sint (word_of_int x :: int32) = x"
  by (simp add: sint_sbintrunc' signed_take_bit_int_eq_self)

lemma word_flat_index:
  fixes p :: int32
  shows "p + word_of_nat b * word_of_nat s = word_of_int (sint p + int b * int s)"
  by (simp only: of_int_add of_int_mult of_int_of_nat_eq of_int_sint scast_id)

lemma sint_flat_index:
  fixes p :: int32
  assumes "0 \<le> sint p" and "sint p + int b * int s < 2 ^ 31"
  shows "sint (p + word_of_nat b * word_of_nat s) = sint p + int b * int s"
proof -
  have "0 \<le> int b * int s" by simp
  moreover have "- (2 ^ 31) \<le> (0::int)" by simp
  ultimately have "- (2 ^ 31) \<le> sint p + int b * int s"
    using assms(1) by linarith
  then show ?thesis
    unfolding word_flat_index using assms(2) by (rule sint_word_of_int_small)
qed

lemma concat_block:
  "\<forall>xs\<in>set xss. length xs = h \<Longrightarrow> k < length xss \<Longrightarrow> take h (drop (k * h) (concat xss)) = xss ! k"
proof (induction xss arbitrary: k)
  case Nil then show ?case by simp
next
  case (Cons a xss)
  show ?case
  proof (cases k)
    case 0 then show ?thesis using Cons.prems by simp
  next
    case (Suc j)
    then show ?thesis using Cons by simp
  qed
qed

lemma length_concat_blocks:
  "\<forall>xs\<in>set xss. length xs = h \<Longrightarrow> length (concat xss) = length xss * h"
  by (induction xss) auto

lemma flat_index_bound:
  assumes "b < B" "p < S"
  shows "b * S + p < B * (S::nat)"
proof -
  have "b * S + p < b * S + S" using assms by simp
  also have "\<dots> = Suc b * S" by simp
  also have "\<dots> \<le> B * S" using assms(1) by (intro mult_le_mono1) simp
  finally show ?thesis .
qed

lemma div_less_rows: "k < B * M \<Longrightarrow> k div M < (B::nat)"
  by (simp add: less_mult_imp_div_less)

lemma block_length:
  assumes "i < n" "length xs = n * h"
  shows "length (take h (drop (i * h) xs)) = h"
proof -
  have "Suc i * h \<le> n * h" using assms(1) by (intro mult_le_mono1) simp
  then show ?thesis using assms(2) by simp
qed

lemma gather_positions_eval:
  fixes inputs :: "'a tensor"
  assumes shp: "shape inputs = [B, S, H]" and wi: "well_shaped inputs"
    and psh: "shape positions = [B, M]" and wp: "well_shaped positions"
    and rng: "\<forall>p\<in>set (data positions). 0 \<le> sint p \<and> sint p < int S"
    and bB: "B < 2 ^ 31" and bS: "S < 2 ^ 31" and bBS: "B * S \<le> 2 ^ 31"
  shows "gather_positions inputs positions =
           Inr \<lparr>shape = [B, M, H],
                data = concat (map (\<lambda>k. take H (drop (((k div M) * S + nat (sint (data positions ! k))) * H)
                                                   (data inputs)))
                                   [0..<B * M])\<rparr>"
proof -
  define idx where "idx k = (k div M) * S + nat (sint (data positions ! k))" for k
  define ids where "ids = map (\<lambda>k. data positions ! k + (word_of_nat (k div M) :: int32) * word_of_nat S) [0..<B * M]"
  have lenp: "length (data positions) = B * M"
    using wp psh by (simp add: well_shaped_def)
  have leni: "length (data inputs) = (B * S) * H"
    using wi shp by (simp add: well_shaped_def)
  have pk: "0 \<le> sint (data positions ! k) \<and> sint (data positions ! k) < int S" if "k < B * M" for k
    using rng lenp that by simp
  have idx_lt: "idx k < B * S" if "k < B * M" for k
  proof -
    have "nat (sint (data positions ! k)) < S" using pk [OF that] by linarith
    then show ?thesis
      unfolding idx_def using div_less_rows [OF that] by (rule flat_index_bound [rotated])
  qed
  have sint_id: "sint (data positions ! k + (word_of_nat (k div M) :: int32) * word_of_nat S) = int (idx k)"
    if "k < B * M" for k
  proof -
    have "int (idx k) < 2 ^ 31"
      using idx_lt [OF that] bBS by (metis (no_types, opaque_lifting) less_le_trans of_nat_less_iff of_nat_numeral of_nat_power)
    moreover have "int (idx k) = sint (data positions ! k) + int (k div M) * int S"
      using pk [OF that] by (simp add: idx_def)
    ultimately show ?thesis
      using sint_flat_index [of "data positions ! k" "k div M" S] pk [OF that] by simp
  qed
  have r: "range_times B S = Inr (map (\<lambda>b. (word_of_nat b :: int32) * word_of_nat S) [0..<B])"
    using bB bS by (simp add: range_times_def)
  have a: "add_offsets positions (map (\<lambda>b. (word_of_nat b :: int32) * word_of_nat S) [0..<B]) = Inr ids"
  proof -
    have "(map (\<lambda>k. data positions ! ((if B = 1 then 0 else k div M) * M + k mod M)
                       + map (\<lambda>b. (word_of_nat b :: int32) * word_of_nat S) [0..<B] ! (if B = 1 then 0 else k div M))
               [0..<B * M]) = ids"
      unfolding ids_def
    proof (rule map_cong [OF refl])
      fix k assume "k \<in> set [0..<B * M]"
      then have k: "k < B * M" by simp
      have d: "k div M < B" by (rule div_less_rows [OF k])
      have e: "(if B = 1 then 0 else k div M) = k div M" using d by auto
      show "data positions ! ((if B = 1 then 0 else k div M) * M + k mod M)
              + map (\<lambda>b. (word_of_nat b :: int32) * word_of_nat S) [0..<B] ! (if B = 1 then 0 else k div M)
            = data positions ! k + word_of_nat (k div M) * word_of_nat S"
        unfolding e using d by simp
    qed
    then show ?thesis by (simp add: add_offsets_def psh)
  qed
  have rs: "reshape inputs [B * S, H] = Inr (inputs\<lparr>shape := [B * S, H]\<rparr>)"
    using leni by (simp add: reshape_def)
  let ?rows = "map (\<lambda>k. take H (drop (idx k * H) (data inputs))) [0..<B * M]"
  have inr: "list_all (\<lambda>i. 0 \<le> sint i \<and> sint i < int (B * S)) ids"
    unfolding list_all_iff ids_def
  proof
    fix i assume "i \<in> set (map (\<lambda>k. data positions ! k + (word_of_nat (k div M) :: int32) * word_of_nat S) [0..<B * M])"
    then obtain k where k: "k < B * M" and i: "i = data positions ! k + word_of_nat (k div M) * word_of_nat S"
      by auto
    show "0 \<le> sint i \<and> sint i < int (B * S)"
      unfolding i sint_id [OF k] using idx_lt [OF k] by (simp only: of_nat_less_iff of_nat_0_le_iff simp_thms)
  qed
  have rows: "map (\<lambda>i. take H (drop (nat (sint i) * H) (data inputs))) ids = ?rows"
    unfolding ids_def map_map
  proof (rule map_cong [OF refl])
    fix k assume "k \<in> set [0..<B * M]"
    then have k: "k < B * M" by simp
    show "((\<lambda>i. take H (drop (nat (sint i) * H) (data inputs))) \<circ>
           (\<lambda>k. data positions ! k + (word_of_nat (k div M) :: int32) * word_of_nat S)) k
          = take H (drop (idx k * H) (data inputs))"
      by (simp add: sint_id [OF k])
  qed
  have el: "embedding_lookup (inputs\<lparr>shape := [B * S, H]\<rparr>) ids
              = Inr \<lparr>shape = [B * M, H], data = concat ?rows\<rparr>"
  proof -
    have "embedding_lookup (inputs\<lparr>shape := [B * S, H]\<rparr>) ids
            = Inr \<lparr>shape = [length ids, H],
                   data = concat (map (\<lambda>i. take H (drop (nat (sint i) * H) (data inputs))) ids)\<rparr>"
      using inr by (simp add: embedding_lookup_def)
    moreover have "length ids = B * M" by (simp add: ids_def)
    ultimately show ?thesis by (simp only: rows)
  qed
  have blk: "\<forall>xs\<in>set ?rows. length xs = H"
  proof
    fix xs assume "xs \<in> set ?rows"
    then obtain k where k: "k < B * M" and xs: "xs = take H (drop (idx k * H) (data inputs))"
      by auto
    show "length xs = H" unfolding xs by (rule block_length [OF idx_lt [OF k] leni])
  qed
  have lenc: "length (concat ?rows) = B * M * H"
    using length_concat_blocks [OF blk] by simp
  have rs2: "reshape \<lparr>shape = [B * M, H], data = concat ?rows\<rparr> [B, M, H]
               = Inr \<lparr>shape = [B, M, H], data = concat ?rows\<rparr>"
    using lenc by (simp add: reshape_def)
  have "gather_positions inputs positions = Inr \<lparr>shape = [B, M, H], data = concat ?rows\<rparr>"
    unfolding gather_positions_def by (simp add: shp psh r a rs el rs2)
  then show ?thesis by (simp only: idx_def)
qed


lemma sint_word_of_nat_small:
  "n < 2 ^ 31 \<Longrightarrow> sint (word_of_nat n :: int32) = int n"
proof -
  assume n: "n < 2 ^ 31"
  have "int n < 2 ^ 31" using n by (metis of_nat_less_iff of_nat_numeral of_nat_power)
  moreover have "- (2 ^ 31) \<le> int n" by (rule order_trans [of _ 0]) simp_all
  ultimately have "sint (word_of_int (int n) :: int32) = int n"
    by (intro sint_word_of_int_small)
  then show ?thesis by (simp only: of_int_of_nat_eq)
qed

lemma concat_blocks_take:
  "n * h \<le> length xs \<Longrightarrow> concat (map (\<lambda>k. take h (drop (k * h) xs)) [0..<n]) = take (n * h) xs"
proof (induction n)
  case 0 then show ?case by simp
next
  case (Suc n)
  then have "n * h \<le> length xs" by simp
  then have IH: "concat (map (\<lambda>k. take h (drop (k * h) xs)) [0..<n]) = take (n * h) xs"
    by (rule Suc.IH)
  have "concat (map (\<lambda>k. take h (drop (k * h) xs)) [0..<Suc n])
          = take (n * h) xs @ take h (drop (n * h) xs)"
    by (simp add: IH)
  also have "\<dots> = take (n * h + h) xs" by (rule take_add [symmetric])
  also have "n * h + h = Suc n * h" by simp
  finally show ?case .
qed

subsection \<open>Evaluating the gather on concrete tensors\<close>

text \<open>
  The end-to-end scenario of the specification: \<open>output[0] = [hidden[0,0], hidden[0,2]]\<close>
  and \<open>output[1] = [hidden[1,1], hidden[1,3]]\<close>.
\<close>

lemma gather_positions_small:
  "gather_positions small_hidden small_positions
     = Inr \<lparr>shape = [2, 2, 3], data = [0, 1, 2, 6, 7, 8, 15, 16, 17, 21, 22, 23]\<rparr>"
  unfolding gather_positions_def
  by (simp add: small_hidden_def small_positions_def range_times_def add_offsets_def
        reshape_def embedding_lookup_def) code_simp

lemma upt_0_3: "[0..<3] = [0, 1, 2]"
  by code_simp

lemma wide_range_times: "range_times 3 2147483647 = Inr [0, 2147483647, 4294967294]"
  by (simp add: range_times_def upt_0_3)

lemma wide_add_offsets: "add_offsets wide_positions [0, 2147483647, 4294967294] = Inr [0, 2147483647, 0]"
  by (simp add: add_offsets_def wide_positions_def upt_0_3)

lemma wide_reshape: "reshape wide_hidden [3 * 2147483647, 1] = Inr (wide_hidden\<lparr>shape := [6442450941, 1]\<rparr>)"
  by (simp add: reshape_def wide_hidden_def)

lemma row_of_upt: "k < n \<Longrightarrow> take (Suc 0) (drop k (map f [0..<n])) = [f k]"
  by (simp add: take_map drop_map take_Suc_conv_app_nth)

lemma first_row_of_upt: "0 < n \<Longrightarrow> take (Suc 0) (map f [0..<n]) = [f 0]"
  using row_of_upt [of 0 n f] by simp

lemma wide_lookup: "embedding_lookup (wide_hidden\<lparr>shape := [6442450941, 1]\<rparr>) [0, 2147483647, 0]
   = Inr \<lparr>shape = [3, 1], data = [0, 2147483647, 0]\<rparr>"
  by (simp add: embedding_lookup_def wide_hidden_def row_of_upt first_row_of_upt)

lemma wide_order_positions_rows:
  assumes "b < 3" "s < 2147483647"
  shows "at2 wide_order_positions b s = word_of_nat s"
proof -
  have "b * 2147483647 + s < 3 * 2147483647"
    using assms by (rule flat_index_bound)
  then show ?thesis using assms(2)
    by (simp add: at2_def wide_order_positions_def)
qed

subsection \<open>Gathered rows\<close>

text \<open>
  C1, as amended. For a hidden-state tensor of shape \<open>(B, S, H)\<close> and a position tensor of
  shape \<open>(B, M)\<close> with entries in \<open>[0, S)\<close>, where \<open>B\<close> and \<open>S\<close> are below \<open>2\<^sup>3\<^sup>1\<close> and
  \<open>B * S\<close> is at most \<open>2\<^sup>3\<^sup>1\<close> (every flat row index fits \<^verbatim>\<open>int32\<close>),
  \<open>gather_positions\<close> returns a tensor of shape \<open>(B, M, H)\<close> with
  \<open>output[b, m, :] = hidden[b, position[b, m], :]\<close> for all \<open>b < B\<close> and \<open>m < M\<close>.
\<close>

theorem gather_positions_rows:
  fixes inputs :: "'a tensor"
  assumes shp: "shape inputs = [B, S, H]" and wi: "well_shaped inputs"
    and psh: "shape positions = [B, M]" and wp: "well_shaped positions"
    and rng: "\<forall>p\<in>set (data positions). 0 \<le> sint p \<and> sint p < int S"
    and bB: "B < 2 ^ 31" and bS: "S < 2 ^ 31" and bBS: "B * S \<le> 2 ^ 31"
  shows "\<exists>out. gather_positions inputs positions = Inr out \<and> shape out = [B, M, H] \<and>
           well_shaped out \<and>
           (\<forall>b<B. \<forall>m<M. row3 out b m = row3 inputs b (nat (sint (at2 positions b m))))"
proof -
  let ?row = "\<lambda>k. take H (drop (((k div M) * S + nat (sint (data positions ! k))) * H) (data inputs))"
  let ?rows = "map ?row [0..<B * M]"
  let ?out = "\<lparr>shape = [B, M, H], data = concat ?rows\<rparr>"
  have ev: "gather_positions inputs positions = Inr ?out"
    by (rule gather_positions_eval [OF assms])
  have lenp: "length (data positions) = B * M"
    using wp psh by (simp add: well_shaped_def)
  have leni: "length (data inputs) = (B * S) * H"
    using wi shp by (simp add: well_shaped_def)
  have blk: "\<forall>xs\<in>set ?rows. length xs = H"
  proof
    fix xs assume "xs \<in> set ?rows"
    then obtain k where k: "k < B * M" and xs: "xs = ?row k" by auto
    have "0 \<le> sint (data positions ! k) \<and> sint (data positions ! k) < int S"
      using rng lenp k by simp
    then have "nat (sint (data positions ! k)) < S" by linarith
    then have "(k div M) * S + nat (sint (data positions ! k)) < B * S"
      using div_less_rows [OF k] by (rule flat_index_bound [rotated])
    then show "length xs = H" unfolding xs using leni by (rule block_length)
  qed
  have ws: "well_shaped ?out"
    using length_concat_blocks [OF blk] by (simp add: well_shaped_def)
  have rows: "row3 ?out b m = row3 inputs b (nat (sint (at2 positions b m)))" if b: "b < B" and m: "m < M" for b m
  proof -
    have k: "b * M + m < B * M" using m b by (rule flat_index_bound [rotated])
    have "row3 ?out b m = take H (drop ((b * M + m) * H) (concat ?rows))"
      by (simp add: row3_def)
    also have "\<dots> = ?rows ! (b * M + m)"
      using blk k by (intro concat_block) simp_all
    also have "\<dots> = ?row (b * M + m)" using k by simp
    also have "\<dots> = row3 inputs b (nat (sint (at2 positions b m)))"
      using m by (simp add: row3_def at2_def shp psh)
    finally show ?thesis .
  qed
  show ?thesis using ev ws rows by auto
qed

text \<open>The amended C1 at the scenario of the specification.\<close>

theorem gather_positions_rows_witness:
  "shape small_hidden = [2, 4, 3] \<and> well_shaped small_hidden \<and>
   shape small_positions = [2, 2] \<and> well_shaped small_positions \<and>
   list_all (\<lambda>p. 0 \<le> sint p \<and> sint p < int 4) (data small_positions) \<and>
   (\<exists>out. gather_positions small_hidden small_positions = Inr out \<and> shape out = [2, 2, 3] \<and>
      well_shaped out \<and>
      (\<forall>b<2. \<forall>m<2. row3 out b m = row3 small_hidden b (nat (sint (at2 small_positions b m)))))"
proof -
  have h: "shape small_hidden = [2, 4, 3]" "well_shaped small_hidden"
    "shape small_positions = [2, 2]" "well_shaped small_positions"
    by (simp_all add: small_hidden_def small_positions_def well_shaped_def)
  have r: "\<forall>p\<in>set (data small_positions). 0 \<le> sint p \<and> sint p < int 4"
    by (simp add: small_positions_def)
  have b: "(2::nat) < 2 ^ 31" "(4::nat) < 2 ^ 31" "(2::nat) * 4 \<le> 2 ^ 31"
    by simp_all
  show ?thesis
    using gather_positions_rows [OF h r b] h r unfolding list_all_iff by blast
qed

text \<open>
  C1 as stated fails where the flat index leaves \<^verbatim>\<open>int32\<close>. With \<open>B = 3\<close> and
  \<open>S = 2\<^sup>3\<^sup>1 - 1\<close> the offset of batch 2 is \<open>2 * S\<close>, which wraps to \<open>-2\<close>; position 2
  of batch 2 then has flat index 0, and \<open>output[2, 0, :]\<close> is \<open>hidden[0, 0, :] = [0]\<close>,
  not \<open>hidden[2, 2, :] = [4294967296]\<close>.
\<close>

theorem gather_positions_rows_int32_wrap:
  "well_shaped wide_hidden \<and> well_shaped wide_positions \<and>
   shape wide_hidden = [3, 2147483647, 1] \<and> shape wide_positions = [3, 1] \<and>
   sint (at2 wide_positions 0 0) = 0 \<and> sint (at2 wide_positions 1 0) = 0 \<and>
   sint (at2 wide_positions 2 0) = 2 \<and>
   gather_positions wide_hidden wide_positions = Inr \<lparr>shape = [3, 1, 1], data = [0, 2147483647, 0]\<rparr> \<and>
   row3 \<lparr>shape = [3, 1, 1], data = [0, 2147483647, 0 :: int]\<rparr> 2 0 = [0] \<and>
   row3 wide_hidden 2 (nat (sint (at2 wide_positions 2 0))) = [4294967296]"
proof -
  have ws: "well_shaped wide_hidden" "well_shaped wide_positions"
    by (simp_all add: well_shaped_def wide_hidden_def wide_positions_def)
  have sh: "shape wide_hidden = [3, 2147483647, 1]" "shape wide_positions = [3, 1]"
    by (simp_all add: wide_hidden_def wide_positions_def)
  have at: "at2 wide_positions 0 0 = 0" "at2 wide_positions 1 0 = 0" "at2 wide_positions 2 0 = 2"
    by (simp_all add: at2_def wide_positions_def)
  have rs2: "reshape \<lparr>shape = [3, 1], data = [0, 2147483647, 0 :: int]\<rparr> [3, 1, 1]
               = Inr \<lparr>shape = [3, 1, 1], data = [0, 2147483647, 0]\<rparr>"
    by (simp add: reshape_def)
  have g: "gather_positions wide_hidden wide_positions
             = Inr \<lparr>shape = [3, 1, 1], data = [0, 2147483647, 0]\<rparr>"
    unfolding gather_positions_def using wide_range_times wide_add_offsets wide_reshape wide_lookup rs2 by (simp add: sh)
  have o: "row3 \<lparr>shape = [3, 1, 1], data = [0, 2147483647, 0 :: int]\<rparr> 2 0 = [0]"
    by (simp add: row3_def)
  have h: "row3 wide_hidden 2 (nat (sint (at2 wide_positions 2 0))) = [4294967296]"
    by (simp add: at row3_def wide_hidden_def row_of_upt)
  have sat: "sint (at2 wide_positions 0 0) = 0" "sint (at2 wide_positions 1 0) = 0"
    "sint (at2 wide_positions 2 0) = 2"
    by (simp_all only: at) simp_all
  show ?thesis by (intro conjI ws sh sat g o h)
qed

subsection \<open>Gathering every position in order\<close>

text \<open>
  C8, as amended. For a hidden-state tensor of shape \<open>(B, S, H)\<close> with \<open>B\<close> and \<open>S\<close> below
  \<open>2\<^sup>3\<^sup>1\<close> and \<open>B * S\<close> at most \<open>2\<^sup>3\<^sup>1\<close>, gathering with a position tensor of shape
  \<open>(B, S)\<close> whose every row is \<open>[0, 1, ..., S-1]\<close> returns the hidden-state tensor itself.
\<close>

theorem gather_positions_identity:
  fixes inputs :: "'a tensor"
  assumes shp: "shape inputs = [B, S, H]" and wi: "well_shaped inputs"
    and psh: "shape positions = [B, S]" and wp: "well_shaped positions"
    and ord: "\<forall>b<B. \<forall>s<S. at2 positions b s = word_of_nat s"
    and bB: "B < 2 ^ 31" and bS: "S < 2 ^ 31" and bBS: "B * S \<le> 2 ^ 31"
  shows "gather_positions inputs positions = Inr inputs"
proof -
  have lenp: "length (data positions) = B * S"
    using wp psh by (simp add: well_shaped_def)
  have leni: "length (data inputs) = (B * S) * H"
    using wi shp by (simp add: well_shaped_def)
  have pk: "data positions ! k = word_of_nat (k mod S)" if k: "k < B * S" for k
  proof -
    have "S \<noteq> 0" using k by (cases S) simp_all
    then have "k mod S < S" by simp
    moreover have "k div S < B" by (rule div_less_rows [OF k])
    ultimately have "at2 positions (k div S) (k mod S) = word_of_nat (k mod S)"
      using ord by blast
    then show ?thesis by (simp add: at2_def psh)
  qed
  have sk: "sint (data positions ! k) = int (k mod S)" if k: "k < B * S" for k
  proof -
    have "S \<noteq> 0" using k by (cases S) simp_all
    then have "k mod S < S" by simp
    then have "k mod S < 2 ^ 31" using bS by (rule less_trans)
    then show ?thesis unfolding pk [OF k] by (rule sint_word_of_nat_small)
  qed
  have rng: "\<forall>p\<in>set (data positions). 0 \<le> sint p \<and> sint p < int S"
  proof
    fix p assume "p \<in> set (data positions)"
    then obtain k where k: "k < B * S" and p: "p = data positions ! k"
      using lenp by (metis in_set_conv_nth)
    have "S \<noteq> 0" using k by (cases S) simp_all
    then have "k mod S < S" by simp
    then show "0 \<le> sint p \<and> sint p < int S" unfolding p sk [OF k] by simp
  qed
  have ev: "gather_positions inputs positions =
           Inr \<lparr>shape = [B, S, H],
                data = concat (map (\<lambda>k. take H (drop (((k div S) * S + nat (sint (data positions ! k))) * H)
                                                   (data inputs)))
                                   [0..<B * S])\<rparr>"
    by (rule gather_positions_eval [OF shp wi psh wp rng bB bS bBS])
  have eq: "map (\<lambda>k. take H (drop (((k div S) * S + nat (sint (data positions ! k))) * H) (data inputs))) [0..<B * S]
        = map (\<lambda>k. take H (drop (k * H) (data inputs))) [0..<B * S]"
  proof (rule map_cong [OF refl])
    fix k assume "k \<in> set [0..<B * S]"
    then have k: "k < B * S" by simp
    show "take H (drop (((k div S) * S + nat (sint (data positions ! k))) * H) (data inputs))
          = take H (drop (k * H) (data inputs))"
      by (simp add: sk [OF k])
  qed
  have cc: "concat (map (\<lambda>k. take H (drop (k * H) (data inputs))) [0..<B * S]) = data inputs"
    using concat_blocks_take [of "B * S" H "data inputs"] leni by simp
  have "gather_positions inputs positions = Inr \<lparr>shape = [B, S, H], data = data inputs\<rparr>"
    using ev by (simp only: eq cc)
  then show ?thesis using shp by simp
qed

text \<open>The amended C8 on the small hidden-state tensor, with rows \<open>[0, 1, 2, 3]\<close>.\<close>

theorem gather_positions_identity_witness:
  "shape small_hidden = [2, 4, 3] \<and> well_shaped small_hidden \<and>
   shape small_order_positions = [2, 4] \<and> well_shaped small_order_positions \<and>
   map (at2 small_order_positions 0) [0, 1, 2, 3] = [0, 1, 2, 3] \<and>
   map (at2 small_order_positions 1) [0, 1, 2, 3] = [0, 1, 2, 3] \<and>
   gather_positions small_hidden small_order_positions = Inr small_hidden"
proof -
  have h: "shape small_hidden = [2, 4, 3]" "well_shaped small_hidden"
    "shape small_order_positions = [2, 4]" "well_shaped small_order_positions"
    by (simp_all add: small_hidden_def small_order_positions_def well_shaped_def)
  have lt2: "b = 0 \<or> b = 1" if "b < 2" for b :: nat using that by auto
  have lt4: "s = 0 \<or> s = 1 \<or> s = 2 \<or> s = 3" if "s < 4" for s :: nat using that by auto
  have r: "\<forall>b<2. \<forall>s<4. at2 small_order_positions b s = word_of_nat s"
    by (auto dest!: lt2 lt4 simp: at2_def small_order_positions_def)
  have b: "(2::nat) < 2 ^ 31" "(4::nat) < 2 ^ 31" "(2::nat) * 4 \<le> 2 ^ 31"
    by simp_all
  have e: "map (at2 small_order_positions 0) [0, 1, 2, 3] = [0, 1, 2, 3]"
    "map (at2 small_order_positions 1) [0, 1, 2, 3] = [0, 1, 2, 3]"
    by (simp_all add: at2_def small_order_positions_def)
  show ?thesis
    using gather_positions_identity [OF h r b] h e by blast
qed

text \<open>
  C8 as stated fails on the wide tensor: the rows of \<open>wide_order_positions\<close> are
  \<open>[0, ..., S-1]\<close> (lemma \<open>wide_order_positions_rows\<close>), the flat index of position 0 of
  batch 2 wraps to \<open>-2\<close>, and the lookup fails instead of returning the hidden states.
\<close>

theorem gather_positions_identity_int32_wrap:
  "well_shaped wide_hidden \<and> well_shaped wide_order_positions \<and>
   shape wide_hidden = [3, 2147483647, 1] \<and> shape wide_order_positions = [3, 2147483647] \<and>
   gather_positions wide_hidden wide_order_positions = Inl (OpError ''index out of range'')"
proof -
  define f :: "nat \<Rightarrow> int32" where
    "f k = data wide_order_positions ! ((k div 2147483647) * 2147483647 + k mod 2147483647)
             + [0, 2147483647, 4294967294] ! (k div 2147483647)" for k
  have ws: "well_shaped wide_hidden" "well_shaped wide_order_positions"
    by (simp_all add: well_shaped_def wide_hidden_def wide_order_positions_def)
  have sh: "shape wide_hidden = [3, 2147483647, 1]" "shape wide_order_positions = [3, 2147483647]"
    by (simp_all add: wide_hidden_def wide_order_positions_def)
  have a: "add_offsets wide_order_positions [0, 2147483647, 4294967294] = Inr (map f [0..<6442450941])"
    by (simp add: add_offsets_def sh f_def)
  have fk: "f 4294967294 = 4294967294"
    by (simp add: f_def wide_order_positions_def)
  have "f 4294967294 \<in> set (map f [0..<6442450941])"
    by simp
  moreover have "\<not> (0 \<le> sint (f 4294967294))"
    by (simp add: fk)
  ultimately have nl: "\<not> list_all (\<lambda>i. 0 \<le> sint i \<and> sint i < int 6442450941) (map f [0..<6442450941])"
    unfolding list_all_iff by blast
  have el: "embedding_lookup (wide_hidden\<lparr>shape := [6442450941, 1]\<rparr>) (map f [0..<6442450941])
              = Inl (OpError ''index out of range'')"
    using nl by (simp add: embedding_lookup_def)
  have g: "gather_positions wide_hidden wide_order_positions
             = Inl (OpError ''index out of range'')"
    unfolding gather_positions_def using wide_range_times a wide_reshape el by (simp add: sh)
  show ?thesis by (intro conjI ws sh g)
qed

section \<open>Properties of the optimizer\<close>

subsection \<open>The example optimizers\<close>

lemma norm2_singleton: "norm2 [x] = \<bar>x\<bar>"
  by (simp add: norm2_def)

lemma example_optimizer_init: "init (1 / 10000000) example_args = Inr example_optimizer"
  by (simp add: init_def example_args_def default_args_def example_optimizer_def)

lemma scenario_optimizer_init: "init k scenario_args = Inr (scenario_optimizer k)"
  by (simp add: init_def scenario_args_def default_args_def scenario_optimizer_def)

lemma kernel_name: "get_variable_name (var_name (kernel_var w)) = ''dense/kernel''"
  by (simp add: kernel_var_def get_variable_name_def is_digit_def newline_def)

lemma bias_name: "get_variable_name (var_name (bias_var w)) = ''dense/bias''"
  by (simp add: bias_var_def get_variable_name_def is_digit_def newline_def)

lemma scenario_name: "get_variable_name (var_name scenario_var) = ''v''"
  by (simp add: scenario_var_def get_variable_name_def is_digit_def newline_def)

lemma example_kernel_flags:
  "do_layer_adaptation literal_search example_optimizer ''dense/kernel''"
  "do_use_weight_decay literal_search example_optimizer ''dense/kernel''"
  by (simp_all add: do_layer_adaptation_def do_use_weight_decay_def example_optimizer_def)

lemma example_bias_flags:
  "do_layer_adaptation literal_search example_optimizer ''dense/bias''"
  "\<not> do_use_weight_decay literal_search example_optimizer ''dense/bias''"
  by (simp_all add: do_layer_adaptation_def do_use_weight_decay_def example_optimizer_def)

subsection \<open>Trust ratio\<close>

text \<open>
  C2. For a variable that is not excluded from layer adaptation: when the L2 norm of the
  variable is 0 the trust ratio is 1, whatever the gradient; when the variable's norm is
  positive and the gradient's norm is 0 it is 1; when both are positive it is
  \<open>eeta * w_norm / (g_norm + weight_decay * w_norm + epsilon)\<close>, where \<open>weight_decay\<close> is
  the local of the source at that line: the rate passed in, or 0 for a variable excluded from
  weight decay.
\<close>

theorem compute_trust_ratio_cases:
  assumes "do_layer_adaptation re_search self (get_variable_name (var_name var))"
  shows "(norm2 (var_value var) = 0 \<longrightarrow>
            fst (compute_trust_ratio re_search self grad var eeta eps weight_decay) = 1) \<and>
         (0 < norm2 (var_value var) \<and> norm2 grad = 0 \<longrightarrow>
            fst (compute_trust_ratio re_search self grad var eeta eps weight_decay) = 1) \<and>
         (0 < norm2 (var_value var) \<and> 0 < norm2 grad \<longrightarrow>
            fst (compute_trust_ratio re_search self grad var eeta eps weight_decay)
              = eeta * norm2 (var_value var)
                / (norm2 grad
                   + (if do_use_weight_decay re_search self (get_variable_name (var_name var))
                      then weight_decay else 0) * norm2 (var_value var)
                   + eps))"
  using assms by (simp add: compute_trust_ratio_def Let_def)

text \<open>C2 on a kernel of the example optimizer, once for each of the three cases.\<close>

theorem compute_trust_ratio_cases_witness:
  "fst (compute_trust_ratio literal_search example_optimizer [1] (kernel_var 0)
          (1 / 1000) (1 / 10000000) (1 / 10000)) = 1 \<and>
   fst (compute_trust_ratio literal_search example_optimizer [0] (kernel_var 4)
          (1 / 1000) (1 / 10000000) (1 / 10000)) = 1 \<and>
   fst (compute_trust_ratio literal_search example_optimizer [1] (kernel_var 4)
          (1 / 1000) (1 / 10000000) (1 / 10000))
     = (1 / 1000) * 4 / (1 + (1 / 10000) * 4 + 1 / 10000000)"
proof -
  have la: "do_layer_adaptation literal_search example_optimizer (get_variable_name (var_name (kernel_var w)))" for w
    by (simp only: kernel_name example_kernel_flags)
  have n: "norm2 (var_value (kernel_var 0)) = 0" "norm2 (var_value (kernel_var 4)) = 4"
    "norm2 [0] = 0" "norm2 [1] = 1"
    by (simp_all add: kernel_var_def norm2_singleton)
  show ?thesis
    using compute_trust_ratio_cases [OF la, of 0 "[1]" "1 / 1000" "1 / 10000000" "1 / 10000"]
      compute_trust_ratio_cases [OF la, of 4 "[0]" "1 / 1000" "1 / 10000000" "1 / 10000"]
      compute_trust_ratio_cases [OF la, of 4 "[1]" "1 / 1000" "1 / 10000000" "1 / 10000"]
    by (simp add: n kernel_name example_kernel_flags)
qed

subsection \<open>Variables excluded from weight decay\<close>

lemma pattern_match_found:
  "r \<in> set rs \<Longrightarrow> re_search r param_name \<Longrightarrow> \<not> no_pattern_matches re_search rs param_name"
  by (induction rs) auto

lemma excluded_no_weight_decay:
  assumes "exclude_from_weight_decay self = Some rs" "r \<in> set rs" "re_search r param_name"
  shows "\<not> do_use_weight_decay re_search self param_name"
proof -
  have "rs \<noteq> []" using assms(2) by auto
  then show ?thesis
    using assms pattern_match_found [of r rs re_search param_name]
    by (simp add: do_use_weight_decay_def)
qed

text \<open>
  C5. For a variable whose base name matches a pattern of \<open>exclude_from_weight_decay\<close> and
  that is not excluded from layer adaptation, the gradient that \<open>compute_trust_ratio\<close>
  passes on is the raw input gradient, the weight decay in the denominator of the trust
  ratio is 0, and the momentum update accumulates that raw gradient (times the scaled
  learning rate).
\<close>

theorem excluded_from_weight_decay_raw_gradient:
  assumes ex: "exclude_from_weight_decay self = Some rs" "r \<in> set rs"
      "re_search r (get_variable_name (var_name var))"
    and la: "do_layer_adaptation re_search self (get_variable_name (var_name var))"
  shows "snd (compute_trust_ratio re_search self grad var eeta eps weight_decay) = grad \<and>
         fst (compute_trust_ratio re_search self grad var eeta eps weight_decay)
           = (if 0 < norm2 (var_value var) \<and> 0 < norm2 grad
              then eeta * norm2 (var_value var) / (norm2 grad + 0 * norm2 (var_value var) + eps)
              else 1) \<and>
         step_momentum_var (resource_apply_dense re_search self iterations grad var momentum_var apply_state)
           = map2 (\<lambda>a g. a * coef_momentum (update_coefficients self iterations apply_state) + g)
               momentum_var
               (map (\<lambda>g. g * step_scaled_lr
                               (resource_apply_dense re_search self iterations grad var momentum_var apply_state))
                    grad)"
proof -
  have nwd: "\<not> do_use_weight_decay re_search self (get_variable_name (var_name var))"
    using ex by (rule excluded_no_weight_decay [where re_search = re_search])
  have g: "snd (compute_trust_ratio re_search self grad var eeta' eps' wd') = grad" for eeta' eps' wd'
    using la nwd by (simp add: compute_trust_ratio_def Let_def)
  have t: "fst (compute_trust_ratio re_search self grad var eeta eps weight_decay)
           = (if 0 < norm2 (var_value var) \<and> 0 < norm2 grad
              then eeta * norm2 (var_value var) / (norm2 grad + 0 * norm2 (var_value var) + eps)
              else 1)"
    using la nwd by (simp add: compute_trust_ratio_def Let_def)
  have m: "step_momentum_var (resource_apply_dense re_search self iterations grad var momentum_var apply_state)
           = map2 (\<lambda>a g. a * coef_momentum (update_coefficients self iterations apply_state) + g)
               momentum_var
               (map (\<lambda>g. g * step_scaled_lr
                               (resource_apply_dense re_search self iterations grad var momentum_var apply_state))
                    grad)"
    using g by (simp add: resource_apply_dense_def resource_apply_momentum_def Let_def split_beta)
  show ?thesis using g t m by blast
qed

text \<open>C5 on a bias of the example optimizer, whose name matches the pattern \<open>bias\<close>.\<close>

theorem excluded_from_weight_decay_raw_gradient_witness:
  "snd (compute_trust_ratio literal_search example_optimizer [1] (bias_var 4)
          (1 / 1000) (1 / 10000000) (1 / 10000)) = [1] \<and>
   fst (compute_trust_ratio literal_search example_optimizer [1] (bias_var 4)
          (1 / 1000) (1 / 10000000) (1 / 10000))
     = (1 / 1000) * 4 / (1 + 0 * 4 + 1 / 10000000) \<and>
   step_momentum_var (resource_apply_dense literal_search example_optimizer 0 [1] (bias_var 4) [0] None)
     = [0 * (9 / 10)
        + 1 * step_scaled_lr (resource_apply_dense literal_search example_optimizer 0 [1] (bias_var 4) [0] None)]"
proof -
  have ex: "exclude_from_weight_decay example_optimizer = Some [''bn'', ''bias'']"
    "''bias'' \<in> set [''bn'', ''bias'']"
    "literal_search ''bias'' (get_variable_name (var_name (bias_var 4)))"
    by (simp_all add: example_optimizer_def bias_name)
  have la: "do_layer_adaptation literal_search example_optimizer (get_variable_name (var_name (bias_var 4)))"
    by (simp only: bias_name example_bias_flags)
  have n: "norm2 (var_value (bias_var 4)) = 4" "norm2 [1] = 1"
    by (simp_all add: bias_var_def norm2_singleton)
  have c: "coef_momentum (update_coefficients example_optimizer 0 None) = 9 / 10"
    by (simp add: update_coefficients_def prepare_local_def example_optimizer_def)
  show ?thesis
    using excluded_from_weight_decay_raw_gradient [OF ex la,
        of "[1]" "1 / 1000" "1 / 10000000" "1 / 10000" 0 "[0]" None]
    by (simp add: n c)
qed

subsection \<open>Monotonicity of the trust ratio\<close>





subsection \<open>Construction\<close>

text \<open>
  C4. When the optimizer is constructed with a falsy \<open>epsilon\<close> (zero or \<^verbatim>\<open>None\<close>), the
  stored epsilon is the library's backend epsilon, so it is not zero when that is not
  (it is \<open>1e-7\<close> by default); a non-zero argument is stored unchanged. The stored value is
  the epsilon of the per-step coefficients, which the trust ratio has in its denominator.
\<close>

theorem init_epsilon:
  assumes "init backend_epsilon a = Inr self"
  shows "(arg_epsilon a = None \<or> arg_epsilon a = Some 0 \<longrightarrow> epsilon self = backend_epsilon) \<and>
         (arg_epsilon a = Some e \<and> e \<noteq> 0 \<longrightarrow> epsilon self = e) \<and>
         (backend_epsilon \<noteq> 0 \<longrightarrow> epsilon self \<noteq> 0) \<and>
         coef_epsilon (update_coefficients self iterations None) = epsilon self"
  using assms
  by (auto simp: init_def Let_def update_coefficients_def prepare_local_def
        split: if_splits option.splits)

text \<open>
  C4 at the default \<open>epsilon = 0.0\<close>, at \<^verbatim>\<open>None\<close> and at \<open>epsilon = 0.01\<close>, under the default
  backend epsilon.
\<close>

theorem init_epsilon_witness:
  "epsilon example_optimizer = 1 / 10000000 \<and>
   epsilon example_optimizer \<noteq> 0 \<and>
   coef_epsilon (update_coefficients example_optimizer 0 None) = epsilon example_optimizer \<and>
   init (1 / 10000000) (example_args\<lparr>arg_epsilon := None\<rparr>) = Inr example_optimizer \<and>
   init (1 / 10000000) (example_args\<lparr>arg_epsilon := Some (1 / 100)\<rparr>)
     = Inr (example_optimizer\<lparr>epsilon := 1 / 100\<rparr>) \<and>
   epsilon (example_optimizer\<lparr>epsilon := 1 / 100\<rparr>) = 1 / 100"
proof -
  have i0: "init (1 / 10000000) example_args = Inr example_optimizer"
    by (simp add: init_def example_args_def default_args_def example_optimizer_def)
  have i1: "init (1 / 10000000) (example_args\<lparr>arg_epsilon := None\<rparr>) = Inr example_optimizer"
    by (simp add: init_def example_args_def default_args_def example_optimizer_def)
  have i2: "init (1 / 10000000) (example_args\<lparr>arg_epsilon := Some (1 / 100)\<rparr>)
              = Inr (example_optimizer\<lparr>epsilon := 1 / 100\<rparr>)"
    by (simp add: init_def example_args_def default_args_def example_optimizer_def)
  have a0: "arg_epsilon example_args = Some 0"
    by (simp add: example_args_def default_args_def)
  show ?thesis
    using init_epsilon [OF i0, of 0 0] init_epsilon [OF i1, of 0 0]
      init_epsilon [OF i2, of "1 / 100" 0] i1 i2 a0
    by simp
qed

text \<open>
  C9. Constructing the optimizer with compute precisions whose number is not 2 fails with
  the \<^verbatim>\<open>ValueError\<close> of the source (the invalid-argument error of the specification);
  with exactly two precisions the construction succeeds and stores them.
\<close>

theorem init_compute_precisions:
  "(length (arg_optimizer_compute_precisions a) \<noteq> 2 \<longrightarrow>
      init backend_epsilon a
        = Inl (ValueError ''Must provide a list of two elements for the optimizer compute precision.'')) \<and>
   (length (arg_optimizer_compute_precisions a) = 2 \<longrightarrow>
      (\<exists>self. init backend_epsilon a = Inr self \<and> opt_dtypes self = arg_optimizer_compute_precisions a))"
  by (simp add: init_def Let_def)

text \<open>C9 at one, three and two compute precisions.\<close>

theorem init_compute_precisions_witness:
  "init (1 / 10000000) (example_args\<lparr>arg_optimizer_compute_precisions := [Float32]\<rparr>)
     = Inl (ValueError ''Must provide a list of two elements for the optimizer compute precision.'') \<and>
   init (1 / 10000000) (example_args\<lparr>arg_optimizer_compute_precisions := [Float16, Float32, Float32]\<rparr>)
     = Inl (ValueError ''Must provide a list of two elements for the optimizer compute precision.'') \<and>
   (\<exists>self. init (1 / 10000000) (example_args\<lparr>arg_optimizer_compute_precisions := [Float16, Float32]\<rparr>)
              = Inr self \<and> opt_dtypes self = [Float16, Float32])"
  using init_compute_precisions [of "example_args\<lparr>arg_optimizer_compute_precisions := [Float32]\<rparr>" "1 / 10000000"]
    init_compute_precisions [of "example_args\<lparr>arg_optimizer_compute_precisions := [Float16, Float32, Float32]\<rparr>" "1 / 10000000"]
    init_compute_precisions [of "example_args\<lparr>arg_optimizer_compute_precisions := [Float16, Float32]\<rparr>" "1 / 10000000"]
  by simp

subsection \<open>Sparse gradients\<close>

text \<open>
  C6. Every invocation of the sparse update path fails with the not-implemented error and
  returns no updated state; a dense gradient is updated by \<open>resource_apply_dense\<close>.
\<close>

theorem sparse_update_not_implemented:
  "resource_apply_sparse self values var indices apply_state
     = Inl (NotImplementedError ''Must be implemented in subclasses.'') \<and>
   apply_gradient re_search self iterations (IndexedSlices values indices) var momentum_var apply_state
     = Inl (NotImplementedError ''Must be implemented in subclasses.'') \<and>
   apply_gradient re_search self iterations (Dense grad) var momentum_var apply_state
     = Inr (resource_apply_dense re_search self iterations grad var momentum_var apply_state)"
  by (simp add: apply_gradient_def resource_apply_sparse_def)

subsection \<open>The end-to-end optimizer scenario\<close>

lemma scenario_step:
  "resource_apply_dense re_search (scenario_optimizer k) iterations [1] scenario_var [0] None
     = \<lparr>step_trust_ratio = 4 / (1 + k),
        step_scaled_lr = (1 / 10) * (4 / (1 + k)),
        step_momentum_var = [(1 / 10) * (4 / (1 + k))],
        step_var = \<lparr>var_name = ''v:0'', var_value = [4 - (1 / 10) * (4 / (1 + k))]\<rparr>\<rparr>"
  by (simp add: resource_apply_dense_def update_coefficients_def prepare_local_def decayed_lr_def
        compute_trust_ratio_def resource_apply_momentum_def Let_def scenario_name
        do_layer_adaptation_def do_use_weight_decay_def scenario_optimizer_def
        scenario_var_def norm2_singleton)

text \<open>
  C3, as amended. For the scalar variable \<open>v = 4.0\<close> with gradient \<open>g = 1.0\<close>, under an
  optimizer constructed with momentum 0, eeta 1, weight decay 0, epsilon 0, learning rate
  0.1 and no exclusion patterns, the stored epsilon is the positive backend epsilon \<open>\<epsilon>\<close> of
  the library; one dense apply step computes the trust ratio \<open>4 / (1 + \<epsilon>)\<close> and the
  scaled learning rate \<open>0.4 / (1 + \<epsilon>)\<close>, sets the momentum accumulator to
  \<open>0.4 / (1 + \<epsilon>)\<close> and the variable to \<open>4 - 0.4 / (1 + \<epsilon>)\<close>, which is above 3.6.
\<close>

theorem scenario_dense_step:
  assumes "0 < backend_epsilon"
  shows "init backend_epsilon scenario_args = Inr (scenario_optimizer backend_epsilon) \<and>
         epsilon (scenario_optimizer backend_epsilon) = backend_epsilon \<and>
         create_slots [scenario_var] = [[0]] \<and>
         step_trust_ratio (resource_apply_dense re_search (scenario_optimizer backend_epsilon)
                             iterations [1] scenario_var [0] None)
           = 4 / (1 + backend_epsilon) \<and>
         step_scaled_lr (resource_apply_dense re_search (scenario_optimizer backend_epsilon)
                           iterations [1] scenario_var [0] None)
           = (4 / 10) / (1 + backend_epsilon) \<and>
         step_momentum_var (resource_apply_dense re_search (scenario_optimizer backend_epsilon)
                              iterations [1] scenario_var [0] None)
           = [(4 / 10) / (1 + backend_epsilon)] \<and>
         var_value (step_var (resource_apply_dense re_search (scenario_optimizer backend_epsilon)
                                iterations [1] scenario_var [0] None))
           = [4 - (4 / 10) / (1 + backend_epsilon)] \<and>
         4 - (4 / 10) / (1 + backend_epsilon) > 36 / 10"
proof -
  have "(4 / 10) / (1 + backend_epsilon) < (4 / 10) / 1"
    using assms by (intro divide_strict_left_mono) simp_all
  then have "4 - (4 / 10) / (1 + backend_epsilon) > 36 / 10" by simp
  then show ?thesis
    by (simp add: scenario_optimizer_init scenario_step create_slots_def)
       (simp add: scenario_optimizer_def scenario_var_def)
qed

text \<open>The amended C3 under the default backend epsilon \<open>1e-7\<close>.\<close>

theorem scenario_dense_step_witness:
  "init (1 / 10000000) scenario_args = Inr (scenario_optimizer (1 / 10000000)) \<and>
   step_trust_ratio (resource_apply_dense literal_search (scenario_optimizer (1 / 10000000))
                       0 [1] scenario_var [0] None)
     = 40000000 / 10000001 \<and>
   step_scaled_lr (resource_apply_dense literal_search (scenario_optimizer (1 / 10000000))
                     0 [1] scenario_var [0] None)
     = 4000000 / 10000001 \<and>
   step_momentum_var (resource_apply_dense literal_search (scenario_optimizer (1 / 10000000))
                        0 [1] scenario_var [0] None)
     = [4000000 / 10000001] \<and>
   var_value (step_var (resource_apply_dense literal_search (scenario_optimizer (1 / 10000000))
                          0 [1] scenario_var [0] None))
     = [36000004 / 10000001]"
proof -
  have "(0::real) < 1 / 10000000" by simp
  from scenario_dense_step [OF this, of literal_search 0]
  show ?thesis by simp
qed

text \<open>
  C3 as stated fails: with \<open>epsilon = 0\<close> the constructor stores the backend epsilon
  \<open>1e-7\<close>, and the trust ratio, the scaled learning rate, the accumulator and the new
  value of the variable are not 4, 0.4, 0.4 and 3.6.
\<close>

theorem scenario_epsilon_replaced:
  "arg_epsilon scenario_args = Some 0 \<and>
   init (1 / 10000000) scenario_args = Inr (scenario_optimizer (1 / 10000000)) \<and>
   epsilon (scenario_optimizer (1 / 10000000)) = 1 / 10000000 \<and>
   step_trust_ratio (resource_apply_dense literal_search (scenario_optimizer (1 / 10000000))
                       0 [1] scenario_var [0] None)
     \<noteq> 4 \<and>
   step_scaled_lr (resource_apply_dense literal_search (scenario_optimizer (1 / 10000000))
                     0 [1] scenario_var [0] None)
     \<noteq> 4 / 10 \<and>
   step_momentum_var (resource_apply_dense literal_search (scenario_optimizer (1 / 10000000))
                        0 [1] scenario_var [0] None)
     \<noteq> [4 / 10] \<and>
   var_value (step_var (resource_apply_dense literal_search (scenario_optimizer (1 / 10000000))
                          0 [1] scenario_var [0] None))
     \<noteq> [36 / 10]"
  by (simp add: scenario_optimizer_init scenario_step)
     (simp add: scenario_optimizer_def scenario_args_def default_args_def)

subsection \<open>Configuration export\<close>

lemma from_config_get_config:
  assumes "init k a = Inr self"
  shows "from_config k (get_config self)
           = Inr (self\<lparr>exclude_from_weight_decay := None,
                       exclude_from_layer_adaptation := None,
                       use_nesterov := False,
                       opt_dtypes := [Float32, Float32]\<rparr>)"
  using assms
  by (auto simp: from_config_def get_config_def init_def default_args_def Let_def
        split: if_splits option.splits)

text \<open>
  C10 does not hold of the code. The export has the seven entries the claim lists, but not
  the exclusion patterns, the Nesterov flag and the compute precisions; an optimizer
  reconstructed from it has their defaults. The example optimizer leaves the gradient of a
  bias as it is; the optimizer reconstructed from its export folds the weight decay into it.
\<close>

theorem get_config_loses_exclusions:
  "init (1 / 10000000) example_args = Inr example_optimizer \<and>
   from_config (1 / 10000000) (get_config example_optimizer)
     = Inr (example_optimizer\<lparr>exclude_from_weight_decay := None,
                              exclude_from_layer_adaptation := None\<rparr>) \<and>
   snd (compute_trust_ratio literal_search example_optimizer [1] (bias_var 4)
          (1 / 1000) (1 / 10000000) (1 / 10000)) = [1] \<and>
   snd (compute_trust_ratio literal_search
          (example_optimizer\<lparr>exclude_from_weight_decay := None,
                             exclude_from_layer_adaptation := None\<rparr>)
          [1] (bias_var 4) (1 / 1000) (1 / 10000000) (1 / 10000)) = [1 + (1 / 10000) * 4]"
proof -
  have i: "init (1 / 10000000) example_args = Inr example_optimizer"
    by (rule example_optimizer_init)
  have f: "from_config (1 / 10000000) (get_config example_optimizer)
     = Inr (example_optimizer\<lparr>exclude_from_weight_decay := None,
                              exclude_from_layer_adaptation := None\<rparr>)"
    using from_config_get_config [OF i] by (simp add: example_optimizer_def)
  have a: "snd (compute_trust_ratio literal_search example_optimizer [1] (bias_var 4)
          (1 / 1000) (1 / 10000000) (1 / 10000)) = [1]"
    by (simp add: compute_trust_ratio_def Let_def bias_name example_bias_flags)
  have b: "snd (compute_trust_ratio literal_search
          (example_optimizer\<lparr>exclude_from_weight_decay := None,
                             exclude_from_layer_adaptation := None\<rparr>)
          [1] (bias_var 4) (1 / 1000) (1 / 10000000) (1 / 10000)) = [1 + (1 / 10000) * 4]"
    by (simp add: compute_trust_ratio_def Let_def bias_name do_layer_adaptation_def
          do_use_weight_decay_def)
       (simp add: bias_var_def)
  show ?thesis by (intro conjI i f a b)
qed

end
